theory Spec2Isabelle
  imports Main "HOL-Library.AList"
begin

section \<open>JavaScript data\<close>

text \<open>
  The values that travel through \<^verbatim>\<open>binance.js\<close> are plain data: the caller's
  parameter object, the parsed JSON response and the client configuration. An object is an
  association list in insertion order; a property that is absent reads as \<open>Undefined\<close>.
  Numbers are integers (millisecond clock readings and JSON integers); characters are
  code units below 256.
\<close>

datatype js_value =
    Undefined
  | Null
  | Bool bool
  | Num int
  | Str string
  | Arr "js_value list"
  | Obj "(string \<times> js_value) list"

type_synonym js_object = "(string \<times> js_value) list"

datatype js_error =
    Error string
  | TypeError string
  | ReferenceError string
  | SyntaxError string
  | RequestError string

text \<open>\<^verbatim>\<open>o.k\<close> for an own data property, and \<^verbatim>\<open>o.k = v\<close>: an existing
  property keeps its place, a new one is appended.\<close>

definition get_prop :: "js_object \<Rightarrow> string \<Rightarrow> js_value" where
  "get_prop ob k = (case map_of ob k of None \<Rightarrow> Undefined | Some v \<Rightarrow> v)"

definition set_prop :: "js_object \<Rightarrow> string \<Rightarrow> js_value \<Rightarrow> js_object" where
  "set_prop ob k v = AList.update k v ob"

text \<open>ToBoolean: \<^verbatim>\<open>undefined\<close>, \<^verbatim>\<open>null\<close>, \<^verbatim>\<open>false\<close>, \<^verbatim>\<open>0\<close> and the
  empty string are falsy, everything else is truthy.\<close>

fun truthy :: "js_value \<Rightarrow> bool" where
  "truthy Undefined = False"
| "truthy Null = False"
| "truthy (Bool b) = b"
| "truthy (Num n) = (n \<noteq> 0)"
| "truthy (Str s) = (s \<noteq> [])"
| "truthy (Arr vs) = True"
| "truthy (Obj kvs) = True"

text \<open>\<^verbatim>\<open>xs.join(sep)\<close> on an array of strings.\<close>

fun join :: "string \<Rightarrow> string list \<Rightarrow> string" where
  "join sep [] = []"
| "join sep [x] = x"
| "join sep (x # y # ys) = x @ sep @ join sep (y # ys)"

section \<open>encodeURIComponent\<close>

text \<open>
  The built-in escapes every code unit except letters, digits and \<^verbatim>\<open>- _ . ! ~ * ' ( )\<close>
  as the \<^verbatim>\<open>%XX\<close> bytes of its UTF-8 encoding.
\<close>

definition uri_unreserved :: "char \<Rightarrow> bool" where
  "uri_unreserved c =
     (c \<in> set (''ABCDEFGHIJKLMNOPQRSTUVWXYZabcdefghijklmnopqrstuvwxyz0123456789-_.!~*()''
              @ [CHR 0x27]))"

definition hex_digit :: "nat \<Rightarrow> char" where
  "hex_digit n = ''0123456789ABCDEF'' ! (n mod 16)"

definition percent :: "nat \<Rightarrow> string" where
  "percent n = [CHR ''%'', hex_digit (n div 16), hex_digit (n mod 16)]"

definition escape_char :: "char \<Rightarrow> string" where
  "escape_char c =
     (if uri_unreserved c then [c]
      else (let n = (of_char c :: nat)
            in if n < 128 then percent n
               else percent (192 + n div 64) @ percent (128 + n mod 64)))"

definition encodeURIComponent_string :: "string \<Rightarrow> string" where
  "encodeURIComponent_string s = concat (map escape_char s)"

text \<open>
  Both call sites pass the parameter \<^emph>\<open>object\<close>, so the built-in first converts it to a
  string. A plain object inherits \<^verbatim>\<open>Object.prototype.toString\<close> and converts to
  \<^verbatim>\<open>[object Object]\<close>, whatever its entries are. An own data property named
  \<^verbatim>\<open>toString\<close> hides the inherited method and is not callable, and then the conversion
  throws.
\<close>

definition object_to_string :: "js_object \<Rightarrow> js_error + string" where
  "object_to_string ob =
     (if ''toString'' \<in> fst ` set ob
      then Inl (TypeError ''Cannot convert object to primitive value'')
      else Inr ''[object Object]'')"

definition encodeURIComponent :: "js_object \<Rightarrow> js_error + string" where
  "encodeURIComponent ob =
     (case object_to_string ob of
        Inl e \<Rightarrow> Inl e
      | Inr s \<Rightarrow> Inr (encodeURIComponent_string s))"

section \<open>External collaborators\<close>

text \<open>
  The modules \<^verbatim>\<open>got\<close>, \<^verbatim>\<open>crypto\<close> and \<^verbatim>\<open>qs\<close> and the built-in
  \<^verbatim>\<open>JSON.parse\<close> are not part of the client; they are parameters of the model.
  \<open>sha256_hex s\<close> stands for
  \<^verbatim>\<open>crypto.createHash('sha256').update(s).digest('hex')\<close>, and \<open>got\<close> maps the request
  it is given to the response body or to the error it rejects with.
\<close>

record request =
  req_url :: string
  req_headers :: "(string \<times> string option) list"
  req_timeout :: int
  req_method :: string
  req_body :: string

record libs =
  sha256_hex :: "string \<Rightarrow> string"
  qs_stringify :: "js_value \<Rightarrow> string"
  got :: "request \<Rightarrow> js_error + string"
  JSON_parse :: "string \<Rightarrow> js_error + js_value"

text \<open>The settled state of a promise.\<close>

datatype 'a promise = Fulfilled 'a | Rejected js_error

section \<open>Method names and configuration\<close>

definition methods_public :: "string list" where
  "methods_public =
     [''ping'', ''time'', ''depth'', ''aggTrades'', ''klines'', ''ticker'', ''ticker/24hr'']"

definition methods_private :: "string list" where
  "methods_private =
     [''order'', ''order/test'', ''account'', ''openOrders'', ''allOrders'', ''myTrades'',
      ''userDataStream'']"

text \<open>
  \<^verbatim>\<open>this.config = Object.assign({ key, secret }, defaults, options)\<close>. A field that was
  never given is \<open>None\<close> (\<^verbatim>\<open>undefined\<close>). The literal of \<^verbatim>\<open>defaults\<close> is read with
  the comma that its \<^verbatim>\<open>api_exchange_public\<close> line lacks.
\<close>

record config =
  key :: "string option"
  secret :: "string option"
  url :: string
  api_v1 :: string
  api_exchange_public :: string
  timeout :: int
  otp :: "string option"

record options =
  opt_key :: "string option"
  opt_secret :: "string option"
  opt_url :: "string option"
  opt_api_v1 :: "string option"
  opt_api_exchange_public :: "string option"
  opt_timeout :: "int option"
  opt_otp :: "string option"

datatype options_arg = NoOptions | OtpString string | Options options

definition defaults :: config where
  "defaults =
     \<lparr>key = None, secret = None, url = ''https://binance.com'', api_v1 = ''/api/v1/'',
      api_exchange_public = ''/exchange/public/'', timeout = 5000, otp = None\<rparr>"

definition or_else :: "'a option \<Rightarrow> 'a \<Rightarrow> 'a" where
  "or_else x d = (case x of None \<Rightarrow> d | Some v \<Rightarrow> v)"

definition BinanceClient :: "string option \<Rightarrow> string option \<Rightarrow> options_arg \<Rightarrow> config" where
  "BinanceClient k s opts =
     (case opts of
        NoOptions \<Rightarrow> defaults\<lparr>key := k, secret := s\<rparr>
      | OtpString p \<Rightarrow> defaults\<lparr>key := k, secret := s, otp := Some p\<rparr>
      | Options ov \<Rightarrow>
          \<lparr>key = (case opt_key ov of None \<Rightarrow> k | Some v \<Rightarrow> Some v),
           secret = (case opt_secret ov of None \<Rightarrow> s | Some v \<Rightarrow> Some v),
           url = or_else (opt_url ov) (url defaults),
           api_v1 = or_else (opt_api_v1 ov) (api_v1 defaults),
           api_exchange_public =
             or_else (opt_api_exchange_public ov) (api_exchange_public defaults),
           timeout = or_else (opt_timeout ov) (timeout defaults),
           otp = opt_otp ov\<rparr>)"

section \<open>signRequestData\<close>

text \<open>
  Line 23: the digest is taken over \<^verbatim>\<open>encodeURIComponent(data) + '|' + api_secret\<close>. A
  secret that is \<^verbatim>\<open>undefined\<close> is concatenated as the text \<^verbatim>\<open>undefined\<close>.
\<close>

definition secret_text :: "string option \<Rightarrow> string" where
  "secret_text s = (case s of None \<Rightarrow> ''undefined'' | Some t \<Rightarrow> t)"

definition hash_digest :: "libs \<Rightarrow> js_object \<Rightarrow> string option \<Rightarrow> js_error + string" where
  "hash_digest L data api_secret =
     (case encodeURIComponent data of
        Inl e \<Rightarrow> Inl e
      | Inr enc \<Rightarrow> Inr (sha256_hex L (enc @ ''|'' @ secret_text api_secret)))"

text \<open>
  Line 24 calls \<^verbatim>\<open>date.now()\<close>. No binding named \<^verbatim>\<open>date\<close> exists in the module or
  among the globals (the clock is \<^verbatim>\<open>Date\<close>), so evaluating the identifier throws.
\<close>

definition date_now :: "js_error + int" where
  "date_now = Inl (ReferenceError ''date is not defined'')"

text \<open>The result is what the function returns or throws, with \<^verbatim>\<open>data\<close> as it leaves it.\<close>

definition signRequestData ::
  "libs \<Rightarrow> js_object \<Rightarrow> string option \<Rightarrow> (js_error + string) \<times> js_object" where
  "signRequestData L data api_secret =
     (case hash_digest L data api_secret of
        Inl e \<Rightarrow> (Inl e, data)
      | Inr digest \<Rightarrow>
          (case date_now of
             Inl e \<Rightarrow> (Inl e, data)
           | Inr t \<Rightarrow>
               (let data1 = set_prop data ''timestamp'' (Num t);
                    data2 = set_prop data1 ''signature'' (Str digest)
                in (encodeURIComponent data2, data2))))"

section \<open>rawRequest\<close>

text \<open>Lines 44 to 56: the check of the parsed response.\<close>

fun length_prop :: "js_value \<Rightarrow> js_value" where
  "length_prop (Arr vs) = Num (int (length vs))"
| "length_prop (Str s) = Num (int (length s))"
| "length_prop (Obj kvs) = get_prop kvs ''length''"
| "length_prop v = Undefined"

fun startsWith_E :: "js_value \<Rightarrow> js_error + bool" where
  "startsWith_E (Str s) = Inr (take 1 s = ''E'')"
| "startsWith_E Undefined =
     Inl (TypeError ''Cannot read properties of undefined (reading 'startsWith')'')"
| "startsWith_E Null =
     Inl (TypeError ''Cannot read properties of null (reading 'startsWith')'')"
| "startsWith_E v = Inl (TypeError ''e.startsWith is not a function'')"

text \<open>\<^verbatim>\<open>.filter((e) => e.startsWith('E'))\<close> visits the entries in order and stops at the
  first one on which the test throws; \<^verbatim>\<open>.map((e) => e.substr(1))\<close> follows.\<close>

fun filter_E :: "js_value list \<Rightarrow> js_error + string list" where
  "filter_E [] = Inr []"
| "filter_E (e # es) =
     (case startsWith_E e of
        Inl err \<Rightarrow> Inl err
      | Inr b \<Rightarrow>
          (case filter_E es of
             Inl err \<Rightarrow> Inl err
           | Inr kept \<Rightarrow>
               Inr (case e of Str s \<Rightarrow> (if b then s # kept else kept) | _ \<Rightarrow> kept)))"

definition response_error :: "js_value \<Rightarrow> js_error + js_value" where
  "response_error response =
     (case response of
        Undefined \<Rightarrow> Inl (TypeError ''Cannot read properties of undefined (reading 'error')'')
      | Null \<Rightarrow> Inl (TypeError ''Cannot read properties of null (reading 'error')'')
      | Obj kvs \<Rightarrow> Inr (get_prop kvs ''error'')
      | _ \<Rightarrow> Inr Undefined)"

definition normalize_response :: "js_value \<Rightarrow> js_error + js_value" where
  "normalize_response response =
     (case response_error response of
        Inl e \<Rightarrow> Inl e
      | Inr err \<Rightarrow>
          (if truthy err \<and> truthy (length_prop err) then
             (case err of
                Arr es \<Rightarrow>
                  (case filter_E es of
                     Inl e \<Rightarrow> Inl e
                   | Inr kept \<Rightarrow>
                       (let error = map (drop 1) kept
                        in if length error = 0
                           then Inl (Error ''Binance API returned an unknown error'')
                           else Inl (Error (join '', '' error))))
              | _ \<Rightarrow> Inl (TypeError ''response.error.filter is not a function''))
           else Inr response))"

text \<open>
  The request handed to \<^verbatim>\<open>got\<close> and the state in which the returned promise settles.
  The second component lists the requests issued.
\<close>

definition rawRequest ::
  "libs \<Rightarrow> string \<Rightarrow> (string \<times> string option) list \<Rightarrow> js_value \<Rightarrow> int
     \<Rightarrow> js_value promise \<times> request list" where
  "rawRequest L u headers data tmo =
     (let headers1 = AList.update ''User-Agent'' (Some ''Binance Javascript API Client'') headers;
          opts = \<lparr>req_url = u, req_headers = headers1, req_timeout = tmo,
                  req_method = ''POST'', req_body = qs_stringify L data\<rparr>
      in (case got L opts of
            Inl e \<Rightarrow> Rejected e
          | Inr body \<Rightarrow>
              (case JSON_parse L body of
                 Inl e \<Rightarrow> Rejected e
               | Inr response \<Rightarrow>
                   (case normalize_response response of
                      Inl e \<Rightarrow> Rejected e
                    | Inr r \<Rightarrow> Fulfilled r)),
          [opts]))"

section \<open>The client\<close>

text \<open>
  The \<^verbatim>\<open>params\<close> argument is \<^verbatim>\<open>undefined\<close>, a function (the callback in its place) or
  an object of data values. A callback is known by a number and by what a call of it does
  with its two arguments (\<^verbatim>\<open>null\<close> is \<open>None\<close>): \<open>cb_throws\<close> gives the exception the
  call throws, \<open>None\<close> when it returns normally. The model records each call of the
  callback with its number and its arguments.
\<close>

type_synonym callback_args = "js_error option \<times> js_value option"

record callback =
  cb_id :: nat
  cb_throws :: "callback_args \<Rightarrow> js_error option"

datatype params_arg = PUndefined | PFunction callback | PObject js_object

type_synonym callback_call = "nat \<times> js_error option \<times> js_value option"

text \<open>
  What a call of a client method does: \<open>returned\<close> is the exception thrown synchronously
  (\<open>Inl\<close>) or the promise returned, \<open>callbacks\<close> the calls of the callback, \<open>requests\<close>
  the requests handed to the transport, and \<open>params_after\<close> the parameter object as the
  call leaves it (the caller's own object when one was passed).
\<close>

record outcome =
  returned :: "js_error + js_value promise"
  callbacks :: "callback_call list"
  requests :: "request list"
  params_after :: js_object

text \<open>\<^verbatim>\<open>params = params || {}\<close>, then \<^verbatim>\<open>typeof params === 'function'\<close>.\<close>

definition params_object :: "params_arg \<Rightarrow> js_object" where
  "params_object p = (case p of PObject ob \<Rightarrow> ob | _ \<Rightarrow> [])"

definition callback_of :: "params_arg \<Rightarrow> callback option \<Rightarrow> callback option" where
  "callback_of p cb = (case p of PFunction f \<Rightarrow> Some f | _ \<Rightarrow> cb)"

text \<open>
  \<^verbatim>\<open>response.then((result) => callback(null, result)).catch((error) => callback(error, null))\<close>,
  attached only when the callback is a function. The \<^verbatim>\<open>catch\<close> is chained after the
  \<^verbatim>\<open>then\<close>: a rejection of \<^verbatim>\<open>response\<close> passes through the \<^verbatim>\<open>then\<close> and reaches
  the second handler, and so does an exception that the callback throws in the first
  handler, so that the callback is then called a second time, with its own exception. What
  the callback throws in the second handler rejects the chained promise, which the code
  drops.
\<close>

definition notify :: "callback option \<Rightarrow> js_value promise \<Rightarrow> callback_call list" where
  "notify cb p =
     (case cb of
        None \<Rightarrow> []
      | Some f \<Rightarrow>
          (case p of
             Fulfilled v \<Rightarrow>
               (case cb_throws f (None, Some v) of
                  None \<Rightarrow> [(cb_id f, None, Some v)]
                | Some e \<Rightarrow> [(cb_id f, None, Some v), (cb_id f, Some e, None)])
           | Rejected e \<Rightarrow> [(cb_id f, Some e, None)]))"

definition publicMethod ::
  "libs \<Rightarrow> config \<Rightarrow> string \<Rightarrow> params_arg \<Rightarrow> callback option \<Rightarrow> outcome" where
  "publicMethod L cfg method params cb =
     (let callback = callback_of params cb;
          params1 = params_object params;
          path = ''/api/v1/'' @ method;
          u = url cfg @ path;
          (response, sent) = rawRequest L u [] (Obj params1) (timeout cfg)
      in \<lparr>returned = Inr response, callbacks = notify callback response,
          requests = sent, params_after = params1\<rparr>)"

text \<open>
  Line 164 assigns to \<^verbatim>\<open>url\<close>, which line 148 declares with \<^verbatim>\<open>const\<close>: the right-hand
  side is evaluated and the assignment throws.
\<close>

definition assign_const :: "string \<Rightarrow> 'a \<Rightarrow> js_error + 'a" where
  "assign_const name v = Inl (TypeError ''Assignment to constant variable.'')"

definition thrown :: "js_error \<Rightarrow> js_object \<Rightarrow> outcome" where
  "thrown e ob = \<lparr>returned = Inl e, callbacks = [], requests = [], params_after = ob\<rparr>"

text \<open>\<open>now\<close> is the clock reading of \<^verbatim>\<open>new Date()\<close> in milliseconds; \<open>signed\<close> is \<open>None\<close>
  when the fourth argument is left out.\<close>

definition privateMethod ::
  "libs \<Rightarrow> int \<Rightarrow> config \<Rightarrow> string \<Rightarrow> params_arg \<Rightarrow> callback option \<Rightarrow> bool option
     \<Rightarrow> outcome" where
  "privateMethod L now cfg method params cb signed =
     (let callback = callback_of params cb;
          params1 = params_object params;
          path = ''/api/v1/'' @ method;
          u = url cfg @ path;
          params2 = (if \<not> truthy (get_prop params1 ''nonce'')
                     then set_prop params1 ''nonce'' (Num (now * 1000)) else params1);
          params3 = (case otp cfg of
                       None \<Rightarrow> params2
                     | Some p \<Rightarrow> set_prop params2 ''otp'' (Str p));
          (encoded, params4) =
            (if or_else signed False then signRequestData L params3 (secret cfg)
             else (encodeURIComponent params3, params3))
      in (case encoded of
            Inl e \<Rightarrow> thrown e params4
          | Inr query \<Rightarrow>
              (case assign_const ''url'' (u @ ''?'' @ query) of
                 Inl e \<Rightarrow> thrown e params4
               | Inr u1 \<Rightarrow>
                   (let headers = [(''X-MBX-APIKEY'', key cfg)];
                        (response, sent) = rawRequest L u1 headers (Str query) (timeout cfg)
                    in \<lparr>returned = Inr response, callbacks = notify callback response,
                        requests = sent, params_after = params4\<rparr>))))"

definition api ::
  "libs \<Rightarrow> int \<Rightarrow> config \<Rightarrow> string \<Rightarrow> params_arg \<Rightarrow> callback option \<Rightarrow> outcome" where
  "api L now cfg method params cb =
     (let callback = callback_of params cb;
          params1 = (case params of PFunction f \<Rightarrow> PObject [] | _ \<Rightarrow> params)
      in if method \<in> set methods_public then publicMethod L cfg method params1 callback
         else if method \<in> set methods_private
         then privateMethod L now cfg method params1 callback None
         else thrown (Error (method @ '' is not a valid API method.'')) (params_object params))"

section \<open>Notions used in the statements\<close>

text \<open>An entry of the \<^verbatim>\<open>error\<close> array that is a string, and one that is a string
  beginning with the prefix \<^verbatim>\<open>E\<close>.\<close>

fun is_Str :: "js_value \<Rightarrow> bool" where
  "is_Str (Str s) = True"
| "is_Str v = False"

fun begins_with_E :: "js_value \<Rightarrow> bool" where
  "begins_with_E (Str s) = (take 1 s = ''E'')"
| "begins_with_E v = False"

text \<open>The request that a public call hands to the transport.\<close>

definition public_request :: "libs \<Rightarrow> config \<Rightarrow> string \<Rightarrow> params_arg \<Rightarrow> request" where
  "public_request L cfg m p =
     \<lparr>req_url = url cfg @ ''/api/v1/'' @ m,
      req_headers = [(''User-Agent'', Some ''Binance Javascript API Client'')],
      req_timeout = timeout cfg, req_method = ''POST'',
      req_body = qs_stringify L (Obj (params_object p))\<rparr>"

text \<open>The calls of the callback, when there is one, that pass it the error \<open>e\<close> of a
  request.\<close>

definition error_calls :: "callback option \<Rightarrow> js_error \<Rightarrow> callback_call list" where
  "error_calls cb e = (case cb of None \<Rightarrow> [] | Some f \<Rightarrow> [(cb_id f, Some e, None)])"

text \<open>
  Collaborators for the closed examples: a transport that always times out, a stringifier
  that gives the empty string for the empty object, and the identity in the place of the
  hash, so that an example shows the very text that is hashed.
\<close>

definition offline :: libs where
  "offline =
     \<lparr>sha256_hex = (\<lambda>s. s),
      qs_stringify = (\<lambda>v. case v of Obj [] \<Rightarrow> [] | _ \<Rightarrow> ''?''),
      got = (\<lambda>r. Inl (RequestError ''ETIMEDOUT'')),
      JSON_parse = (\<lambda>b. Inl (SyntaxError ''Unexpected end of JSON input''))\<rparr>"

text \<open>
  A transport that answers, with a body that does not parse (\<open>garbled\<close>) or with a body
  that parses to the given response (\<open>answering\<close>); a callback that returns normally and
  one that throws whenever it is called.
\<close>

definition garbled :: libs where
  "garbled =
     \<lparr>sha256_hex = (\<lambda>s. s),
      qs_stringify = (\<lambda>v. case v of Obj [] \<Rightarrow> [] | _ \<Rightarrow> ''?''),
      got = (\<lambda>r. Inr ''<html>''),
      JSON_parse = (\<lambda>b. Inl (SyntaxError ''Unexpected token < in JSON at position 0''))\<rparr>"

definition answering :: "js_value \<Rightarrow> libs" where
  "answering response =
     \<lparr>sha256_hex = (\<lambda>s. s),
      qs_stringify = (\<lambda>v. case v of Obj [] \<Rightarrow> [] | _ \<Rightarrow> ''?''),
      got = (\<lambda>r. Inr ''body''),
      JSON_parse = (\<lambda>b. Inr response)\<rparr>"

definition quiet :: "nat \<Rightarrow> callback" where
  "quiet n = \<lparr>cb_id = n, cb_throws = (\<lambda>a. None)\<rparr>"

definition throwing :: "nat \<Rightarrow> js_error \<Rightarrow> callback" where
  "throwing n e = \<lparr>cb_id = n, cb_throws = (\<lambda>a. Some e)\<rparr>"

section \<open>Auxiliary facts\<close>

lemma get_prop_set_prop:
  "get_prop (set_prop ob k v) k' = (if k' = k then v else get_prop ob k')"
  by (simp add: get_prop_def set_prop_def update_conv')

lemma encoded_object:
  "encodeURIComponent_string ''[object Object]'' = ''%5Bobject%20Object%5D''"
  by (simp add: encodeURIComponent_string_def escape_char_def uri_unreserved_def percent_def
      hex_digit_def)

lemma encodeURIComponent_eq:
  "encodeURIComponent ob =
     (if ''toString'' \<in> fst ` set ob
      then Inl (TypeError ''Cannot convert object to primitive value'')
      else Inr ''%5Bobject%20Object%5D'')"
  by (simp add: encodeURIComponent_def object_to_string_def encoded_object)

lemma hash_digest_eq:
  "hash_digest L data s =
     (if ''toString'' \<in> fst ` set data
      then Inl (TypeError ''Cannot convert object to primitive value'')
      else Inr (sha256_hex L (''%5Bobject%20Object%5D|'' @ secret_text s)))"
  by (simp add: hash_digest_def encodeURIComponent_eq)

text \<open>\<^verbatim>\<open>signRequestData\<close> never gets past line 24.\<close>

lemma signRequestData_throws:
  "signRequestData L data s =
     (if ''toString'' \<in> fst ` set data
      then (Inl (TypeError ''Cannot convert object to primitive value''), data)
      else (Inl (ReferenceError ''date is not defined''), data))"
  by (simp add: signRequestData_def hash_digest_eq date_now_def)

text \<open>\<^verbatim>\<open>privateMethod\<close> never gets past line 164: every call of it throws, after the
  nonce and the one-time password have been written into the parameter object.\<close>

lemma privateMethod_eq:
  "privateMethod L now cfg m p cb sg =
     (let params1 = params_object p;
          params2 = (if \<not> truthy (get_prop params1 ''nonce'')
                     then set_prop params1 ''nonce'' (Num (now * 1000)) else params1);
          params3 = (case otp cfg of
                       None \<Rightarrow> params2
                     | Some c \<Rightarrow> set_prop params2 ''otp'' (Str c))
      in thrown
           (if ''toString'' \<in> fst ` set params3
            then TypeError ''Cannot convert object to primitive value''
            else if or_else sg False then ReferenceError ''date is not defined''
            else TypeError ''Assignment to constant variable.'')
           params3)"
  by (simp add: privateMethod_def Let_def signRequestData_throws encodeURIComponent_eq
      assign_const_def)

lemma publicMethod_eq:
  "publicMethod L cfg m p cb =
     \<lparr>returned = Inr (fst (rawRequest L (url cfg @ ''/api/v1/'' @ m) []
                              (Obj (params_object p)) (timeout cfg))),
      callbacks = notify (callback_of p cb)
                    (fst (rawRequest L (url cfg @ ''/api/v1/'' @ m) []
                            (Obj (params_object p)) (timeout cfg))),
      requests = snd (rawRequest L (url cfg @ ''/api/v1/'' @ m) []
                        (Obj (params_object p)) (timeout cfg)),
      params_after = params_object p\<rparr>"
  by (simp add: publicMethod_def Let_def split_beta)

text \<open>The callback that \<^verbatim>\<open>api\<close> takes out of the parameter position is the one the
  two methods would take out themselves.\<close>

lemma api_eq:
  "api L now cfg m p cb =
     (if m \<in> set methods_public then publicMethod L cfg m p cb
      else if m \<in> set methods_private then privateMethod L now cfg m p cb None
      else thrown (Error (m @ '' is not a valid API method.'')) (params_object p))"
  by (cases p)
    (simp_all add: api_def Let_def publicMethod_eq privateMethod_eq params_object_def
      callback_of_def)

lemma filter_E_strings:
  "list_all is_Str es \<Longrightarrow>
     filter_E es = Inr (map (\<lambda>e. case e of Str s \<Rightarrow> s | _ \<Rightarrow> []) (filter begins_with_E es))"
proof (induction es)
  case Nil
  then show ?case by simp
next
  case (Cons e es)
  then show ?case by (cases e) simp_all
qed

lemma filter_E_non_string:
  "\<not> list_all is_Str es \<Longrightarrow> \<exists>msg. filter_E es = Inl (TypeError msg)"
proof (induction es)
  case Nil
  then show ?case by simp
next
  case (Cons e es)
  then show ?case by (cases e) (auto split: sum.splits)
qed

section \<open>Signing\<close>

text \<open>
  Claim C1. Two signed calls with the same logical parameters at different moments are to
  produce different signatures, and the secret is not to appear in the request. Evaluated
  on the code: \<^verbatim>\<open>privateMethod('order', {symbol: 'BTCUSDT', side: 'BUY'}, undefined, true)\<close>
  on a client with secret \<^verbatim>\<open>s3cr3t\<close>, at clock readings 1000 and 2000. The parameter
  objects that reach \<^verbatim>\<open>signRequestData\<close> differ in their nonce, yet line 23 hashes the
  same text both times, because \<^verbatim>\<open>encodeURIComponent\<close> is applied to the object and not
  to its entries. Line 24 then throws, so that no signature is attached and no request is
  built in either call.
\<close>

theorem signed_calls_hash_the_same_text_and_throw:
  "hash_digest L
     [(''symbol'', Str ''BTCUSDT''), (''side'', Str ''BUY''), (''nonce'', Num 1000000)]
     (Some ''s3cr3t'')
     = Inr (sha256_hex L ''%5Bobject%20Object%5D|s3cr3t'')
   \<and> hash_digest L
     [(''symbol'', Str ''BTCUSDT''), (''side'', Str ''BUY''), (''nonce'', Num 2000000)]
     (Some ''s3cr3t'')
     = Inr (sha256_hex L ''%5Bobject%20Object%5D|s3cr3t'')
   \<and> privateMethod L 1000 (BinanceClient (Some ''key'') (Some ''s3cr3t'') NoOptions) ''order''
       (PObject [(''symbol'', Str ''BTCUSDT''), (''side'', Str ''BUY'')]) None (Some True)
     = \<lparr>returned = Inl (ReferenceError ''date is not defined''), callbacks = [], requests = [],
        params_after =
          [(''symbol'', Str ''BTCUSDT''), (''side'', Str ''BUY''), (''nonce'', Num 1000000)]\<rparr>
   \<and> privateMethod L 2000 (BinanceClient (Some ''key'') (Some ''s3cr3t'') NoOptions) ''order''
       (PObject [(''symbol'', Str ''BTCUSDT''), (''side'', Str ''BUY'')]) None (Some True)
     = \<lparr>returned = Inl (ReferenceError ''date is not defined''), callbacks = [], requests = [],
        params_after =
          [(''symbol'', Str ''BTCUSDT''), (''side'', Str ''BUY''), (''nonce'', Num 2000000)]\<rparr>"
  by (simp add: privateMethod_eq hash_digest_eq secret_text_def BinanceClient_def defaults_def
      params_object_def get_prop_def set_prop_def or_else_def thrown_def)

text \<open>
  Claim C2, as stated, fails: a signed private call on a client built without a secret
  throws the \<^verbatim>\<open>ReferenceError\<close> of line 24, and it does exactly what the same call does on
  a client that has a secret. Nothing in the code looks at whether a secret is configured.
\<close>

theorem missing_secret_is_not_detected:
  "\<forall>L. privateMethod L 1000 (BinanceClient (Some ''key'') None NoOptions) ''order''
          (PObject [(''symbol'', Str ''BTCUSDT'')]) None (Some True)
        = \<lparr>returned = Inl (ReferenceError ''date is not defined''), callbacks = [],
           requests = [],
           params_after = [(''symbol'', Str ''BTCUSDT''), (''nonce'', Num 1000000)]\<rparr>
      \<and> privateMethod L 1000 (BinanceClient (Some ''key'') None NoOptions) ''order''
          (PObject [(''symbol'', Str ''BTCUSDT'')]) None (Some True)
        = privateMethod L 1000 (BinanceClient (Some ''key'') (Some ''s3cr3t'') NoOptions)
            ''order'' (PObject [(''symbol'', Str ''BTCUSDT'')]) None (Some True)"
  by (simp add: privateMethod_eq BinanceClient_def defaults_def params_object_def get_prop_def
      set_prop_def or_else_def thrown_def)

text \<open>
  Claim C2, amended. When no secret is configured, no credential check is made: the absent
  secret enters the digest as the text \<^verbatim>\<open>undefined\<close>, and \<^verbatim>\<open>signRequestData\<close> and
  \<^verbatim>\<open>privateMethod\<close> behave as they do for a client whose secret is the string
  \<^verbatim>\<open>undefined\<close>.
\<close>

theorem absent_secret_is_signed_as_undefined:
  "hash_digest L data None = hash_digest L data (Some ''undefined'')
   \<and> signRequestData L data None = signRequestData L data (Some ''undefined'')
   \<and> privateMethod L now (cfg\<lparr>secret := None\<rparr>) m p cb sg
       = privateMethod L now (cfg\<lparr>secret := Some ''undefined''\<rparr>) m p cb sg"
proof -
  have h: "hash_digest L d None = hash_digest L d (Some ''undefined'')" for d
    by (simp add: hash_digest_def secret_text_def split: sum.splits)
  have s: "signRequestData L d None = signRequestData L d (Some ''undefined'')" for d
    by (simp add: signRequestData_def h)
  show ?thesis
    by (simp add: privateMethod_eq h s)
qed

text \<open>
  Claim C9. Signing a parameter mapping is to yield a signature that equals the digest
  recomputed from the same encoded string and the same secret. Evaluated on the code:
  \<^verbatim>\<open>signRequestData({symbol: 'BTCUSDT', nonce: 1000000}, 's3cr3t')\<close>. Line 23 computes
  the digest, the hash of \<^verbatim>\<open>%5Bobject%20Object%5D|s3cr3t\<close>, and line 24 throws before
  line 25 can store it: the call returns nothing and the object has no \<^verbatim>\<open>signature\<close>
  entry with which the recomputed digest could be compared. No call of
  \<^verbatim>\<open>signRequestData\<close> gets further; the object is left as it was passed.
\<close>

theorem signRequestData_yields_no_signature:
  "signRequestData L [(''symbol'', Str ''BTCUSDT''), (''nonce'', Num 1000000)] (Some ''s3cr3t'')
     = (Inl (ReferenceError ''date is not defined''),
        [(''symbol'', Str ''BTCUSDT''), (''nonce'', Num 1000000)])
   \<and> get_prop
        (snd (signRequestData L [(''symbol'', Str ''BTCUSDT''), (''nonce'', Num 1000000)]
                (Some ''s3cr3t'')))
        ''signature'' = Undefined
   \<and> hash_digest L [(''symbol'', Str ''BTCUSDT''), (''nonce'', Num 1000000)] (Some ''s3cr3t'')
       = Inr (sha256_hex L ''%5Bobject%20Object%5D|s3cr3t'')
   \<and> isl (fst (signRequestData L data s))
   \<and> snd (signRequestData L data s) = data"
  by (simp add: signRequestData_throws hash_digest_eq secret_text_def get_prop_def)

section \<open>Routing\<close>

text \<open>
  Claim C3. A method name that is in neither list makes \<^verbatim>\<open>api\<close> throw at once the error
  \<^verbatim>\<open>Error(method + ' is not a valid API method.')\<close>; no request is handed to the
  transport, the callback is not called and the parameters are left as they were.
\<close>

theorem invalid_method_throws_without_request:
  assumes "m \<notin> set methods_public" and "m \<notin> set methods_private"
  shows "api L now cfg m p cb =
           \<lparr>returned = Inl (Error (m @ '' is not a valid API method.'')), callbacks = [],
            requests = [], params_after = params_object p\<rparr>"
  using assms by (simp add: api_eq thrown_def)

theorem invalid_method_throws_without_request_witness:
  "''withdraw'' \<notin> set methods_public \<and> ''withdraw'' \<notin> set methods_private \<and>
   api offline 0 defaults ''withdraw'' (PObject [(''asset'', Str ''BTC'')]) (Some (quiet 1)) =
     \<lparr>returned = Inl (Error ''withdraw is not a valid API method.''), callbacks = [],
      requests = [], params_after = [(''asset'', Str ''BTC'')]\<rparr>"
proof -
  have a: "''withdraw'' \<notin> set methods_public" by (simp add: methods_public_def)
  have b: "''withdraw'' \<notin> set methods_private" by (simp add: methods_private_def)
  show ?thesis
    using a b
      invalid_method_throws_without_request
        [OF a b, of offline 0 defaults "PObject [(''asset'', Str ''BTC'')]" "Some (quiet 1)"]
    by (simp add: params_object_def)
qed

text \<open>
  Claim C8. For a public method name the one request that is built has the URL
  \<^verbatim>\<open>config.url + '/api/v1/' + method\<close>, the \<^verbatim>\<open>User-Agent\<close> header as its only header
  (no API key), the method POST, and as body the stringified parameters of the caller, to
  which nothing (no signature) has been added; the parameter object is left unchanged.
\<close>

theorem public_request_is_unsigned:
  assumes "m \<in> set methods_public"
  shows "requests (api L now cfg m p cb) =
           [\<lparr>req_url = url cfg @ ''/api/v1/'' @ m,
             req_headers = [(''User-Agent'', Some ''Binance Javascript API Client'')],
             req_timeout = timeout cfg, req_method = ''POST'',
             req_body = qs_stringify L (Obj (params_object p))\<rparr>]
         \<and> params_after (api L now cfg m p cb) = params_object p"
  using assms by (simp add: api_eq publicMethod_eq rawRequest_def Let_def)

text \<open>The scenario \<^verbatim>\<open>ping\<close> with empty parameters: path \<^verbatim>\<open>/api/v1/ping\<close>, empty body.\<close>

theorem public_request_is_unsigned_witness:
  "''ping'' \<in> set methods_public \<and>
   requests (api offline 0 defaults ''ping'' (PObject []) None) =
     [\<lparr>req_url = ''https://binance.com/api/v1/ping'',
       req_headers = [(''User-Agent'', Some ''Binance Javascript API Client'')],
       req_timeout = 5000, req_method = ''POST'', req_body = []\<rparr>]
   \<and> params_after (api offline 0 defaults ''ping'' (PObject []) None) = []"
proof -
  have a: "''ping'' \<in> set methods_public" by (simp add: methods_public_def)
  show ?thesis
    using a public_request_is_unsigned [OF a, of offline 0 defaults "PObject []" None]
    by (simp add: params_object_def defaults_def offline_def)
qed

text \<open>
  Claim C10. \<^verbatim>\<open>api\<close> calls \<^verbatim>\<open>privateMethod\<close> without the fourth argument, and a call
  without it is the call with \<^verbatim>\<open>signed\<close> false: every private call made through
  \<^verbatim>\<open>api\<close> is the unsigned call, and the \<^verbatim>\<open>signature\<close> and \<^verbatim>\<open>timestamp\<close> entries
  of the parameters are what the caller passed.
\<close>

theorem api_never_signs:
  assumes "m \<in> set methods_private"
  shows "api L now cfg m p cb = privateMethod L now cfg m p cb None
         \<and> privateMethod L now cfg m p cb None = privateMethod L now cfg m p cb (Some False)
         \<and> api L now cfg m p cb = privateMethod L now cfg m p cb (Some False)
         \<and> get_prop (params_after (api L now cfg m p cb)) ''signature''
             = get_prop (params_object p) ''signature''
         \<and> get_prop (params_after (api L now cfg m p cb)) ''timestamp''
             = get_prop (params_object p) ''timestamp''"
proof -
  have d: "m \<notin> set methods_public"
    using assms by (auto simp add: methods_public_def methods_private_def)
  have a: "api L now cfg m p cb = privateMethod L now cfg m p cb None"
    using assms d by (simp add: api_def privateMethod_def Let_def callback_of_def
        params_object_def split: params_arg.splits)
  have b: "privateMethod L now cfg m p cb None = privateMethod L now cfg m p cb (Some False)"
    by (simp add: privateMethod_def or_else_def)
  have c: "get_prop (params_after (privateMethod L now cfg m p cb (Some False))) k
             = get_prop (params_object p) k" if "k \<noteq> ''nonce''" "k \<noteq> ''otp''" for k
    using that
    by (simp add: privateMethod_def or_else_def Let_def thrown_def assign_const_def
        get_prop_set_prop split: option.splits sum.splits)
  show ?thesis
    using a b c [of "''signature''"] c [of "''timestamp''"] by simp
qed

text \<open>
  The call \<^verbatim>\<open>api('order', {symbol: 'BTCUSDT'})\<close> at clock reading 1000: its outcome is
  that of the unsigned call, which fails at line 164 after the plain encoding of line 161,
  and not that of the signed call, which fails inside \<^verbatim>\<open>signRequestData\<close>.
\<close>

theorem api_never_signs_witness:
  "''order'' \<in> set methods_private \<and>
   api offline 1000 defaults ''order'' (PObject [(''symbol'', Str ''BTCUSDT'')]) None
     = privateMethod offline 1000 defaults ''order'' (PObject [(''symbol'', Str ''BTCUSDT'')])
         None (Some False)
   \<and> privateMethod offline 1000 defaults ''order'' (PObject [(''symbol'', Str ''BTCUSDT'')])
         None (Some False)
     = \<lparr>returned = Inl (TypeError ''Assignment to constant variable.''), callbacks = [],
        requests = [],
        params_after = [(''symbol'', Str ''BTCUSDT''), (''nonce'', Num 1000000)]\<rparr>
   \<and> privateMethod offline 1000 defaults ''order'' (PObject [(''symbol'', Str ''BTCUSDT'')])
         None (Some True)
     = \<lparr>returned = Inl (ReferenceError ''date is not defined''), callbacks = [],
        requests = [],
        params_after = [(''symbol'', Str ''BTCUSDT''), (''nonce'', Num 1000000)]\<rparr>
   \<and> get_prop (params_after
        (api offline 1000 defaults ''order'' (PObject [(''symbol'', Str ''BTCUSDT'')]) None))
        ''signature'' = Undefined
   \<and> get_prop (params_after
        (api offline 1000 defaults ''order'' (PObject [(''symbol'', Str ''BTCUSDT'')]) None))
        ''timestamp'' = Undefined"
proof -
  have a: "''order'' \<in> set methods_private" by (simp add: methods_private_def)
  have g: "get_prop (params_object (PObject [(''symbol'', Str ''BTCUSDT'')])) ''signature''
             = Undefined"
    "get_prop (params_object (PObject [(''symbol'', Str ''BTCUSDT'')])) ''timestamp''
       = Undefined"
    by (simp_all add: params_object_def get_prop_def)
  have u: "privateMethod offline 1000 defaults ''order''
             (PObject [(''symbol'', Str ''BTCUSDT'')]) None (Some False)
     = \<lparr>returned = Inl (TypeError ''Assignment to constant variable.''), callbacks = [],
        requests = [],
        params_after = [(''symbol'', Str ''BTCUSDT''), (''nonce'', Num 1000000)]\<rparr>"
    by (simp add: privateMethod_eq defaults_def params_object_def get_prop_def set_prop_def
        or_else_def thrown_def)
  have t: "privateMethod offline 1000 defaults ''order''
             (PObject [(''symbol'', Str ''BTCUSDT'')]) None (Some True)
     = \<lparr>returned = Inl (ReferenceError ''date is not defined''), callbacks = [],
        requests = [],
        params_after = [(''symbol'', Str ''BTCUSDT''), (''nonce'', Num 1000000)]\<rparr>"
    by (simp add: privateMethod_eq defaults_def params_object_def get_prop_def set_prop_def
        or_else_def thrown_def)
  from api_never_signs [OF a, of offline 1000 defaults
      "PObject [(''symbol'', Str ''BTCUSDT'')]" None]
  show ?thesis
    unfolding g using a u t by blast
qed

section \<open>The response check\<close>

text \<open>
  Claim C4, as stated, fails: for the response \<^verbatim>\<open>{"error": ["E-1013", "Einvalid quantity"]}\<close>
  the message raised is not \<^verbatim>\<open>1013, invalid quantity\<close>.
\<close>

theorem E_1013_message_is_not_the_claimed_one:
  "normalize_response (Obj [(''error'', Arr [Str ''E-1013'', Str ''Einvalid quantity''])])
     \<noteq> Inl (Error ''1013, invalid quantity'')"
  by (simp add: normalize_response_def response_error_def get_prop_def)

text \<open>
  Claim C4, amended. The prefix is the single character \<^verbatim>\<open>E\<close> and only that character
  is cut off, so for the response \<^verbatim>\<open>{"error": ["E-1013", "Einvalid quantity"]}\<close> the error
  raised has exactly the message \<^verbatim>\<open>-1013, invalid quantity\<close>.
\<close>

theorem E_1013_message:
  "normalize_response (Obj [(''error'', Arr [Str ''E-1013'', Str ''Einvalid quantity''])])
     = Inl (Error ''-1013, invalid quantity'')"
  by (simp add: normalize_response_def response_error_def get_prop_def)

text \<open>
  Claim C5, as stated, fails: in the response \<^verbatim>\<open>{"error": [1]}\<close> the error field is a
  non-empty sequence and no entry of it begins with \<^verbatim>\<open>E\<close>, yet the error raised is the
  \<^verbatim>\<open>TypeError\<close> of calling \<^verbatim>\<open>startsWith\<close> on a number, not the unknown-error
  message.
\<close>

theorem non_string_entry_raises_TypeError:
  "list_all (\<lambda>e. \<not> begins_with_E e) [Num 1]
   \<and> normalize_response (Obj [(''error'', Arr [Num 1])])
       = Inl (TypeError ''e.startsWith is not a function'')"
  by (simp add: normalize_response_def response_error_def get_prop_def)

text \<open>
  Claim C5, amended. For every parsed response whose error field is a non-empty sequence
  in which no entry begins with \<^verbatim>\<open>E\<close>: when all entries are strings, the check raises
  the error \<^verbatim>\<open>Binance API returned an unknown error\<close>; when some entry is not a string,
  it raises a \<^verbatim>\<open>TypeError\<close>. Either way the response is not returned as a success.
\<close>

theorem unrecognised_error_entries_are_raised:
  assumes "get_prop kvs ''error'' = Arr es" and "es \<noteq> []"
    and "list_all (\<lambda>e. \<not> begins_with_E e) es"
  shows "if list_all is_Str es
         then normalize_response (Obj kvs)
                = Inl (Error ''Binance API returned an unknown error'')
         else (\<exists>msg. normalize_response (Obj kvs) = Inl (TypeError msg))"
proof (cases "list_all is_Str es")
  case True
  have "filter begins_with_E es = []"
    using assms(3) by (induction es) simp_all
  with True assms(1,2) show ?thesis
    by (simp add: normalize_response_def response_error_def filter_E_strings)
next
  case False
  then obtain msg where "filter_E es = Inl (TypeError msg)"
    using filter_E_non_string by blast
  with False assms(1,2) show ?thesis
    by (simp add: normalize_response_def response_error_def)
qed

text \<open>The scenario \<^verbatim>\<open>{"error": ["warn-only"]}\<close>.\<close>

theorem unrecognised_error_entries_are_raised_witness:
  "get_prop [(''error'', Arr [Str ''warn-only''])] ''error'' = Arr [Str ''warn-only'']
   \<and> [Str ''warn-only''] \<noteq> []
   \<and> list_all (\<lambda>e. \<not> begins_with_E e) [Str ''warn-only'']
   \<and> list_all is_Str [Str ''warn-only'']
   \<and> normalize_response (Obj [(''error'', Arr [Str ''warn-only''])])
       = Inl (Error ''Binance API returned an unknown error'')"
proof -
  have a: "get_prop [(''error'', Arr [Str ''warn-only''])] ''error'' = Arr [Str ''warn-only'']"
    by (simp add: get_prop_def)
  have b: "[Str ''warn-only''] \<noteq> []" by simp
  have c: "list_all (\<lambda>e. \<not> begins_with_E e) [Str ''warn-only'']" by simp
  have d: "list_all is_Str [Str ''warn-only'']" by simp
  from unrecognised_error_entries_are_raised [OF a b c] d
  have "normalize_response (Obj [(''error'', Arr [Str ''warn-only''])])
          = Inl (Error ''Binance API returned an unknown error'')"
    by (simp only: if_True)
  with a b c d show ?thesis by blast
qed

section \<open>Reporting errors\<close>

text \<open>
  Claim C6, as stated, fails: when \<^verbatim>\<open>ping\<close> is called with a callback and the transport
  times out, the error reaches the caller twice, as the rejection of the promise that is
  returned and as the first argument of the callback.
\<close>

theorem request_error_is_reported_on_both_channels:
  "returned (api offline 0 defaults ''ping'' (PObject []) (Some (quiet 7)))
     = Inr (Rejected (RequestError ''ETIMEDOUT''))
   \<and> callbacks (api offline 0 defaults ''ping'' (PObject []) (Some (quiet 7)))
     = [(7, Some (RequestError ''ETIMEDOUT''), None)]"
  by (simp add: api_eq publicMethod_eq rawRequest_def offline_def methods_public_def
      notify_def callback_of_def quiet_def Let_def)

text \<open>
  Claim C6, amended. No error of a public call is swallowed. An error of the transport, of
  \<^verbatim>\<open>JSON.parse\<close> or of the response check rejects the returned promise with that very
  error; when a callback was supplied the same error is passed to the callback as well,
  in one call, so that it is surfaced on both channels, and when none was supplied it is
  surfaced through the promise alone. When the request succeeds the promise is fulfilled
  and the callback is called with the result; an exception that the callback throws there
  is passed back to it in a second call. \<^verbatim>\<open>api\<close> with a public name is the public
  call, and with an unknown name it throws synchronously and does not call the callback.
\<close>

theorem errors_reach_the_caller:
  "requests (publicMethod L cfg m p cb) = [public_request L cfg m p]
   \<and> (got L (public_request L cfg m p) = Inl e \<longrightarrow>
        returned (publicMethod L cfg m p cb) = Inr (Rejected e)
        \<and> callbacks (publicMethod L cfg m p cb) = error_calls (callback_of p cb) e)
   \<and> (got L (public_request L cfg m p) = Inr body \<and> JSON_parse L body = Inl e \<longrightarrow>
        returned (publicMethod L cfg m p cb) = Inr (Rejected e)
        \<and> callbacks (publicMethod L cfg m p cb) = error_calls (callback_of p cb) e)
   \<and> (got L (public_request L cfg m p) = Inr body \<and> JSON_parse L body = Inr response
        \<and> normalize_response response = Inl e \<longrightarrow>
        returned (publicMethod L cfg m p cb) = Inr (Rejected e)
        \<and> callbacks (publicMethod L cfg m p cb) = error_calls (callback_of p cb) e)
   \<and> (got L (public_request L cfg m p) = Inr body \<and> JSON_parse L body = Inr response
        \<and> normalize_response response = Inr v \<longrightarrow>
        returned (publicMethod L cfg m p cb) = Inr (Fulfilled v)
        \<and> callbacks (publicMethod L cfg m p cb) =
            (case callback_of p cb of
               None \<Rightarrow> []
             | Some f \<Rightarrow>
                 (cb_id f, None, Some v)
                 # (case cb_throws f (None, Some v) of
                      None \<Rightarrow> []
                    | Some x \<Rightarrow> [(cb_id f, Some x, None)])))
   \<and> (m \<in> set methods_public \<longrightarrow> api L now cfg m p cb = publicMethod L cfg m p cb)
   \<and> (m \<notin> set methods_public \<and> m \<notin> set methods_private \<longrightarrow>
        returned (api L now cfg m p cb) = Inl (Error (m @ '' is not a valid API method.''))
        \<and> callbacks (api L now cfg m p cb) = [])"
proof -
  have r: "rawRequest L (url cfg @ ''/api/v1/'' @ m) [] (Obj (params_object p)) (timeout cfg)
      = (case got L (public_request L cfg m p) of
           Inl e \<Rightarrow> Rejected e
         | Inr body \<Rightarrow>
             (case JSON_parse L body of
                Inl e \<Rightarrow> Rejected e
              | Inr response \<Rightarrow>
                  (case normalize_response response of
                     Inl e \<Rightarrow> Rejected e
                   | Inr v \<Rightarrow> Fulfilled v)),
         [public_request L cfg m p])"
    by (simp add: rawRequest_def public_request_def Let_def)
  have 1: "requests (publicMethod L cfg m p cb) = [public_request L cfg m p]"
    unfolding publicMethod_eq r by simp
  have 2: "got L (public_request L cfg m p) = Inl e \<longrightarrow>
        returned (publicMethod L cfg m p cb) = Inr (Rejected e)
        \<and> callbacks (publicMethod L cfg m p cb) = error_calls (callback_of p cb) e"
    unfolding publicMethod_eq r by (simp add: notify_def error_calls_def split: option.splits)
  have 3: "got L (public_request L cfg m p) = Inr body \<and> JSON_parse L body = Inl e \<longrightarrow>
        returned (publicMethod L cfg m p cb) = Inr (Rejected e)
        \<and> callbacks (publicMethod L cfg m p cb) = error_calls (callback_of p cb) e"
    unfolding publicMethod_eq r by (simp add: notify_def error_calls_def split: option.splits)
  have 4: "got L (public_request L cfg m p) = Inr body \<and> JSON_parse L body = Inr response
        \<and> normalize_response response = Inl e \<longrightarrow>
        returned (publicMethod L cfg m p cb) = Inr (Rejected e)
        \<and> callbacks (publicMethod L cfg m p cb) = error_calls (callback_of p cb) e"
    unfolding publicMethod_eq r by (simp add: notify_def error_calls_def split: option.splits)
  have 5: "got L (public_request L cfg m p) = Inr body \<and> JSON_parse L body = Inr response
        \<and> normalize_response response = Inr v \<longrightarrow>
        returned (publicMethod L cfg m p cb) = Inr (Fulfilled v)
        \<and> callbacks (publicMethod L cfg m p cb) =
            (case callback_of p cb of
               None \<Rightarrow> []
             | Some f \<Rightarrow>
                 (cb_id f, None, Some v)
                 # (case cb_throws f (None, Some v) of
                      None \<Rightarrow> []
                    | Some x \<Rightarrow> [(cb_id f, Some x, None)]))"
    unfolding publicMethod_eq r by (simp add: notify_def split: option.splits)
  have 6: "m \<in> set methods_public \<longrightarrow> api L now cfg m p cb = publicMethod L cfg m p cb"
    by (simp add: api_eq)
  have 7: "m \<notin> set methods_public \<and> m \<notin> set methods_private \<longrightarrow>
        returned (api L now cfg m p cb) = Inl (Error (m @ '' is not a valid API method.''))
        \<and> callbacks (api L now cfg m p cb) = []"
    by (simp add: api_eq thrown_def)
  from 1 2 3 4 5 6 7 show ?thesis by blast
qed

text \<open>
  \<^verbatim>\<open>ping\<close> with a callback, when the transport times out, when the body does not parse,
  when the response carries an error, and when the request succeeds and the callback
  throws; \<^verbatim>\<open>api\<close> with the public name \<^verbatim>\<open>ping\<close> and with the unknown name
  \<^verbatim>\<open>withdraw\<close>.
\<close>

theorem errors_reach_the_caller_witness:
  "(returned (publicMethod offline defaults ''ping'' (PObject []) (Some (quiet 7)))
      = Inr (Rejected (RequestError ''ETIMEDOUT''))
    \<and> callbacks (publicMethod offline defaults ''ping'' (PObject []) (Some (quiet 7)))
      = [(7, Some (RequestError ''ETIMEDOUT''), None)])
   \<and> (returned (publicMethod garbled defaults ''ping'' (PObject []) (Some (quiet 7)))
      = Inr (Rejected (SyntaxError ''Unexpected token < in JSON at position 0''))
    \<and> callbacks (publicMethod garbled defaults ''ping'' (PObject []) (Some (quiet 7)))
      = [(7, Some (SyntaxError ''Unexpected token < in JSON at position 0''), None)])
   \<and> (returned (publicMethod (answering (Obj [(''error'', Arr [Str ''EService:Busy''])]))
                  defaults ''ping'' (PObject []) (Some (quiet 7)))
      = Inr (Rejected (Error ''Service:Busy''))
    \<and> callbacks (publicMethod (answering (Obj [(''error'', Arr [Str ''EService:Busy''])]))
                   defaults ''ping'' (PObject []) (Some (quiet 7)))
      = [(7, Some (Error ''Service:Busy''), None)])
   \<and> (returned (publicMethod (answering (Obj [])) defaults ''ping'' (PObject [])
                  (Some (throwing 7 (Error ''boom''))))
      = Inr (Fulfilled (Obj []))
    \<and> callbacks (publicMethod (answering (Obj [])) defaults ''ping'' (PObject [])
                   (Some (throwing 7 (Error ''boom''))))
      = [(7, None, Some (Obj [])), (7, Some (Error ''boom''), None)])
   \<and> api offline 0 defaults ''ping'' (PObject []) (Some (quiet 7))
      = publicMethod offline defaults ''ping'' (PObject []) (Some (quiet 7))
   \<and> (returned (api offline 0 defaults ''withdraw'' (PObject []) (Some (quiet 7)))
      = Inl (Error ''withdraw is not a valid API method.'')
    \<and> callbacks (api offline 0 defaults ''withdraw'' (PObject []) (Some (quiet 7))) = [])"
proof -
  have w1: "returned (publicMethod offline defaults ''ping'' (PObject []) (Some (quiet 7)))
      = Inr (Rejected (RequestError ''ETIMEDOUT''))
    \<and> callbacks (publicMethod offline defaults ''ping'' (PObject []) (Some (quiet 7)))
      = [(7, Some (RequestError ''ETIMEDOUT''), None)]"
    using errors_reach_the_caller [where L = offline and cfg = defaults and m = "''ping''"
        and p = "PObject []" and cb = "Some (quiet 7)" and e = "RequestError ''ETIMEDOUT''"]
    by (simp add: offline_def error_calls_def callback_of_def quiet_def)
  have w2: "returned (publicMethod garbled defaults ''ping'' (PObject []) (Some (quiet 7)))
      = Inr (Rejected (SyntaxError ''Unexpected token < in JSON at position 0''))
    \<and> callbacks (publicMethod garbled defaults ''ping'' (PObject []) (Some (quiet 7)))
      = [(7, Some (SyntaxError ''Unexpected token < in JSON at position 0''), None)]"
    using errors_reach_the_caller [where L = garbled and cfg = defaults and m = "''ping''"
        and p = "PObject []" and cb = "Some (quiet 7)" and body = "''<html>''"
        and e = "SyntaxError ''Unexpected token < in JSON at position 0''"]
    by (simp add: garbled_def error_calls_def callback_of_def quiet_def)
  have n: "normalize_response (Obj [(''error'', Arr [Str ''EService:Busy''])])
             = Inl (Error ''Service:Busy'')"
    by (simp add: normalize_response_def response_error_def get_prop_def)
  have w3: "returned (publicMethod (answering (Obj [(''error'', Arr [Str ''EService:Busy''])]))
                  defaults ''ping'' (PObject []) (Some (quiet 7)))
      = Inr (Rejected (Error ''Service:Busy''))
    \<and> callbacks (publicMethod (answering (Obj [(''error'', Arr [Str ''EService:Busy''])]))
                   defaults ''ping'' (PObject []) (Some (quiet 7)))
      = [(7, Some (Error ''Service:Busy''), None)]"
    using n errors_reach_the_caller
        [where L = "answering (Obj [(''error'', Arr [Str ''EService:Busy''])])"
        and cfg = defaults and m = "''ping''" and p = "PObject []" and cb = "Some (quiet 7)"
        and body = "''body''" and response = "Obj [(''error'', Arr [Str ''EService:Busy''])]"
        and e = "Error ''Service:Busy''"]
    by (simp add: answering_def error_calls_def callback_of_def quiet_def)
  have k: "normalize_response (Obj []) = Inr (Obj [])"
    by (simp add: normalize_response_def response_error_def get_prop_def)
  have w4: "returned (publicMethod (answering (Obj [])) defaults ''ping'' (PObject [])
                  (Some (throwing 7 (Error ''boom''))))
      = Inr (Fulfilled (Obj []))
    \<and> callbacks (publicMethod (answering (Obj [])) defaults ''ping'' (PObject [])
                   (Some (throwing 7 (Error ''boom''))))
      = [(7, None, Some (Obj [])), (7, Some (Error ''boom''), None)]"
    using k errors_reach_the_caller
        [where L = "answering (Obj [])" and cfg = defaults and m = "''ping''"
        and p = "PObject []" and cb = "Some (throwing 7 (Error ''boom''))"
        and body = "''body''" and response = "Obj []" and v = "Obj []"]
    by (simp add: answering_def callback_of_def throwing_def)
  have w5: "api offline 0 defaults ''ping'' (PObject []) (Some (quiet 7))
      = publicMethod offline defaults ''ping'' (PObject []) (Some (quiet 7))"
    using errors_reach_the_caller [where L = offline and cfg = defaults and m = "''ping''"
        and p = "PObject []" and cb = "Some (quiet 7)" and now = 0]
    by (simp add: methods_public_def)
  have w6: "returned (api offline 0 defaults ''withdraw'' (PObject []) (Some (quiet 7)))
      = Inl (Error ''withdraw is not a valid API method.'')
    \<and> callbacks (api offline 0 defaults ''withdraw'' (PObject []) (Some (quiet 7))) = []"
    using errors_reach_the_caller [where L = offline and cfg = defaults
        and m = "''withdraw''" and p = "PObject []" and cb = "Some (quiet 7)" and now = 0]
    by (simp add: methods_public_def methods_private_def)
  from w1 w2 w3 w4 w5 w6 show ?thesis by blast
qed

section \<open>The nonce\<close>

text \<open>
  Claim C7, as stated, fails: a nonce of 0 supplied by the caller is not left unchanged,
  it is replaced by the clock reading times 1000.
\<close>

theorem zero_nonce_is_replaced:
  "\<forall>L. get_prop (params_after (privateMethod L 1700000000000 defaults ''account''
          (PObject [(''nonce'', Num 0)]) None None)) ''nonce'' = Num 1700000000000000"
  by (simp add: privateMethod_eq defaults_def params_object_def get_prop_def set_prop_def
      thrown_def)

text \<open>
  Claim C7, amended. After every private call the nonce of the parameter object is the
  millisecond clock reading times 1000 when the caller's parameters had no nonce or a
  falsy one (\<^verbatim>\<open>0\<close>, the empty string, \<^verbatim>\<open>null\<close>, \<^verbatim>\<open>false\<close>); a truthy nonce
  supplied by the caller is left unchanged.
\<close>

theorem nonce_after_private_call:
  "get_prop (params_after (privateMethod L now cfg m p cb sg)) ''nonce'' =
     (if truthy (get_prop (params_object p) ''nonce'')
      then get_prop (params_object p) ''nonce''
      else Num (now * 1000))"
  by (simp add: privateMethod_eq Let_def thrown_def get_prop_set_prop split: option.splits)

end
